theory Spec2Isabelle
  imports Main
begin

section \<open>JavaScript values used by the utilities\<close>

text \<open>
  An exception is a value: \<open>Error\<close> carries the message given to \<open>new Error(...)\<close>,
  \<open>TypeError\<close> is what the engine raises when a property of \<open>undefined\<close> is read or
  a non-function is called, \<open>TomlError\<close> is raised by the TOML parser and
  \<open>SpawnError\<close> is the error object handed to the \<open>'error'\<close> listener of a child
  process (it carries an errno label such as ENOENT and no exit code).
\<close>

datatype js_error =
    Error string
  | TypeError
  | TomlError
  | SpawnError string

text \<open>
  Optional fields are options. A condition \<open>if (x)\<close> tests truthiness: an absent
  value, the empty string and \<open>false\<close> are falsy.
\<close>

definition truthy_str :: "string option \<Rightarrow> bool" where
  "truthy_str v = (case v of None \<Rightarrow> False | Some s \<Rightarrow> s \<noteq> [])"

definition truthy_bool :: "bool option \<Rightarrow> bool" where
  "truthy_bool v = (case v of None \<Rightarrow> False | Some b \<Rightarrow> b)"

text \<open>The string of a truthy optional string (only read under \<open>truthy_str\<close>).\<close>

definition str_of :: "string option \<Rightarrow> string" where
  "str_of v = (case v of None \<Rightarrow> [] | Some s \<Rightarrow> s)"

text \<open>\<open>s.startsWith(p)\<close>.\<close>

definition startsWith :: "string \<Rightarrow> string \<Rightarrow> bool" where
  "startsWith s p = (take (length p) s = p)"

text \<open>\<open>xs.join(sep)\<close> on an array of strings.\<close>

fun join :: "string \<Rightarrow> string list \<Rightarrow> string" where
  "join sep [] = []"
| "join sep [x] = x"
| "join sep (x # y # ys) = x @ sep @ join sep (y # ys)"

text \<open>
  \<open>s.split(c)\<close> for a one-character separator: the result is never empty, and an
  empty string gives one empty piece.
\<close>

fun str_split :: "char \<Rightarrow> string \<Rightarrow> string list" where
  "str_split c [] = [[]]"
| "str_split c (x # xs) =
     (if x = c then [] # str_split c xs
      else (case str_split c xs of
              [] \<Rightarrow> [[x]]
            | s # ss \<Rightarrow> (x # s) # ss))"

text \<open>\<open>xs.at(-1)\<close>: the last element, \<open>undefined\<close> on an empty array.\<close>

definition at_last :: "'a list \<Rightarrow> 'a option" where
  "at_last xs = (if xs = [] then None else Some (last xs))"

text \<open>The decimal text a template literal gives for an integer.\<close>

definition digit_char :: "nat \<Rightarrow> char" where
  "digit_char d = char_of (48 + d)"

function string_of_nat :: "nat \<Rightarrow> string" where
  "string_of_nat n =
     (if n < 10 then [digit_char n]
      else string_of_nat (n div 10) @ [digit_char (n mod 10)])"
  by pat_completeness auto
termination
  by (relation "measure (\<lambda>n. n)") auto

definition string_of_int :: "int \<Rightarrow> string" where
  "string_of_int i =
     (if i < 0 then CHR ''-'' # string_of_nat (nat (- i)) else string_of_nat (nat i))"

text \<open>
  The styling functions of the colour library wrap a text in terminal escape
  sequences when colours are enabled; the text itself is unchanged. The console lines
  of this model are the texts without the escape sequences.
\<close>

definition chalk :: "string \<Rightarrow> string" where
  "chalk s = s"


section \<open>Subcommand resolver\<close>

definition getCargoCommandFromExecutor :: "string \<Rightarrow> string list" where
  "getCargoCommandFromExecutor executor =
     (let target = at_last (str_split CHR '':'' executor);
          toReturn = []
      in if target = Some ''build'' then toReturn @ [''build'']
         else if target = Some ''test'' then toReturn @ [''test'']
         else if target = Some ''lint'' then toReturn @ [''clippy'']
         else if target = Some ''run'' then toReturn @ [''run'']
         else if target = Some ''nextest'' then toReturn @ [''nextest'', ''run'']
         else toReturn)"



section \<open>Watch-mode wrapper\<close>

definition wrapWithCargoWatch :: "string list \<Rightarrow> string list" where
  "wrapWithCargoWatch command =
     (let wrappedCommand = [CHR 0x22] @ join '' '' (''cargo'' # command) @ [CHR 0x22]
      in [''watch'', ''-cqs'', wrappedCommand])"


section \<open>Argument vector builder\<close>

text \<open>
  The option types come from a schema module that is not among the sources; the record
  has the fields \<open>parseCargoArgs\<close> reads, every one optional (\<open>Partial\<close>), typed as
  the nextest schema and the interface list of the specification give them.
\<close>

record CargoOptions =
  toolchain :: "string option"
  features :: "string option"
  noDefaultFeatures :: "bool option"
  target :: "string option"
  release :: "bool option"
  targetDir :: "string option"
  outDir :: "string option"
  verbose :: "bool option"
  veryVerbose :: "bool option"
  quiet :: "bool option"
  messageFormat :: "string option"
  locked :: "bool option"
  frozen :: "bool option"
  offline :: "bool option"

record GeneratorOptions =
  projectName :: string
  moduleName :: string
  projectRoot :: string
  projectDirectory :: string
  parsedTags :: "string list"
  edition :: int

text \<open>
  The part of the executor context the utilities read: \<open>ctx.root\<close>,
  \<open>ctx.projectName\<close>, \<open>ctx.targetName\<close> and \<open>ctx.workspace.projects\<close>, a dictionary
  from project names to project configurations.
\<close>

record ProjectConfiguration =
  projectType :: "string option"

record ExecutorContext =
  root :: string
  projectName :: "string option"
  targetName :: "string option"
  workspace_projects :: "string \<rightharpoonup> ProjectConfiguration"

text \<open>\<open>if (c) args.push(t1, ..., tn)\<close>.\<close>

definition push_when :: "bool \<Rightarrow> string list \<Rightarrow> string list \<Rightarrow> string list" where
  "push_when c toks args = (if c then args @ toks else args)"

text \<open>
  The condition \<open>ctx.targetName === 'build' &&
  ctx.workspace.projects[ctx.projectName].projectType === 'application'\<close>. The right
  operand is evaluated only for a build target; a project name that is not a key of the
  dictionary makes it read a property of \<open>undefined\<close>.
\<close>

definition isApplicationBuild :: "ExecutorContext \<Rightarrow> js_error + bool" where
  "isApplicationBuild ctx =
     (if targetName ctx = Some ''build''
      then (case workspace_projects ctx (str_of (ExecutorContext.projectName ctx)) of
              None \<Rightarrow> Inl TypeError
            | Some project \<Rightarrow> Inr (projectType project = Some ''application''))
      else Inr False)"

text \<open>\<open>s.replace(/^\+/, '')\<close>.\<close>

definition strip_plus :: "string \<Rightarrow> string" where
  "strip_plus s = (if startsWith s ''+'' then drop 1 s else s)"

definition apos :: string where
  "apos = [CHR 0x27]"

definition override_message :: "string \<Rightarrow> string" where
  "override_message original =
     apos @ ''outDir'' @ apos @ '' option can only be used with '' @ apos @ ''nightly'' @ apos
       @ '' toolchain, ''
     @ ''but toolchain '' @ apos @ original @ apos @ '' was already specified. ''
     @ ''Overriding '' @ apos @ original @ apos @ '' => '' @ apos @ ''nightly'' @ apos @ ''.''"

text \<open>
  The body of \<open>if (opts.outDir) { ... }\<close>: the pair of the lines written to the console
  and the new vector. Reading \<open>args[0]\<close> of an empty vector gives \<open>undefined\<close>, whose
  \<open>startsWith\<close> cannot be called.
\<close>

definition outDirStep :: "string \<Rightarrow> string list \<Rightarrow> string list \<times> (js_error + string list)" where
  "outDirStep out args =
     (if args = [] then ([], Inl TypeError)
      else if args ! 0 \<noteq> ''+nightly'' then
        (if startsWith (args ! 0) ''+'' then
           (let label = chalk '' WARNING '';
                original = strip_plus (args ! 0);
                message = override_message original
            in ([label @ '' '' @ message],
                Inr (args[0 := ''+nightly''] @ [''-Z'', ''unstable-options'', ''--out-dir'', out])))
         else ([], Inr ((''+nightly'' # args) @ [''-Z'', ''unstable-options'', ''--out-dir'', out])))
      else ([], Inr (args @ [''-Z'', ''unstable-options'', ''--out-dir'', out])))"

text \<open>
  The result of \<open>parseCargoArgs\<close> is the pair of the console lines written during the
  call and either the exception thrown or the vector returned.
\<close>

definition parseCargoArgs ::
  "CargoOptions \<Rightarrow> ExecutorContext \<Rightarrow> string list \<times> (js_error + string list)" where
  "parseCargoArgs opts ctx =
     (let args = [];
          args = push_when (truthy_str (toolchain opts)) [''+'' @ str_of (toolchain opts)] args
      in if \<not> truthy_str (ExecutorContext.projectName ctx)
         then ([], Inl (Error ''Expected project name to be non-null''))
         else
           (case isApplicationBuild ctx of
              Inl e \<Rightarrow> ([], Inl e)
            | Inr bin \<Rightarrow>
               (let args = args @ [if bin then ''--bin'' else ''-p''];
                    args = args @ [str_of (ExecutorContext.projectName ctx)];
                    args = args @
                      (if truthy_str (features opts)
                       then (if features opts = Some ''all'' then [''--all-features'']
                             else [''--features'', str_of (features opts)])
                       else []);
                    args = push_when (truthy_bool (noDefaultFeatures opts))
                             [''--no-default-features''] args;
                    args = push_when (truthy_str (target opts))
                             [''--target'', str_of (target opts)] args;
                    args = push_when (truthy_bool (release opts)) [''--release''] args;
                    args = push_when (truthy_str (targetDir opts))
                             [''--target-dir'', str_of (targetDir opts)] args
                in (case (if truthy_str (outDir opts)
                          then outDirStep (str_of (outDir opts)) args
                          else ([], Inr args)) of
                      (console, Inl e) \<Rightarrow> (console, Inl e)
                    | (console, Inr args) \<Rightarrow>
                       (let args = push_when (truthy_bool (verbose opts)) [''-v''] args;
                            args = push_when (truthy_bool (veryVerbose opts)) [''-vv''] args;
                            args = push_when (truthy_bool (quiet opts)) [''-q''] args;
                            args = push_when (truthy_str (messageFormat opts))
                                     [''--message-format'', str_of (messageFormat opts)] args;
                            args = push_when (truthy_bool (locked opts)) [''--locked''] args;
                            args = push_when (truthy_bool (frozen opts)) [''--frozen''] args;
                            args = push_when (truthy_bool (offline opts)) [''--offline''] args
                        in (console, Inr args))))))"

text \<open>
  The segments of the returned vector, rule by rule; \<open>parseCargoArgs_tokens\<close> below
  proves that the vector \<open>parseCargoArgs\<close> builds is their concatenation.
\<close>

definition toolchainTokens :: "CargoOptions \<Rightarrow> string list" where
  "toolchainTokens opts =
     (if truthy_str (outDir opts) then [''+nightly'']
      else if truthy_str (toolchain opts) then [''+'' @ str_of (toolchain opts)]
      else [])"

definition featureTokens :: "CargoOptions \<Rightarrow> string list" where
  "featureTokens opts =
     (if truthy_str (features opts)
      then (if features opts = Some ''all'' then [''--all-features'']
            else [''--features'', str_of (features opts)])
      else [])"

definition compileTokens :: "CargoOptions \<Rightarrow> string list" where
  "compileTokens opts =
     (if truthy_bool (noDefaultFeatures opts) then [''--no-default-features''] else [])
     @ (if truthy_str (target opts) then [''--target'', str_of (target opts)] else [])
     @ (if truthy_bool (release opts) then [''--release''] else [])
     @ (if truthy_str (targetDir opts) then [''--target-dir'', str_of (targetDir opts)] else [])"

definition outDirTokens :: "CargoOptions \<Rightarrow> string list" where
  "outDirTokens opts =
     (if truthy_str (outDir opts)
      then [''-Z'', ''unstable-options'', ''--out-dir'', str_of (outDir opts)] else [])"

definition displayTokens :: "CargoOptions \<Rightarrow> string list" where
  "displayTokens opts =
     (if truthy_bool (verbose opts) then [''-v''] else [])
     @ (if truthy_bool (veryVerbose opts) then [''-vv''] else [])
     @ (if truthy_bool (quiet opts) then [''-q''] else [])
     @ (if truthy_str (messageFormat opts)
        then [''--message-format'', str_of (messageFormat opts)] else [])
     @ (if truthy_bool (locked opts) then [''--locked''] else [])
     @ (if truthy_bool (frozen opts) then [''--frozen''] else [])
     @ (if truthy_bool (offline opts) then [''--offline''] else [])"

definition overrideLines :: "CargoOptions \<Rightarrow> string list" where
  "overrideLines opts =
     (if truthy_str (outDir opts) \<and> truthy_str (toolchain opts)
         \<and> str_of (toolchain opts) \<noteq> ''nightly''
      then [chalk '' WARNING '' @ '' '' @ override_message (str_of (toolchain opts))]
      else [])"


section \<open>Process invocation\<close>

text \<open>
  \<open>runCargo\<close> logs the command line, spawns the process and returns a promise that the
  listeners of the child's \<open>'error'\<close> and \<open>'close'\<close> events settle. The child is the
  environment: its events arrive as a list, in order. A \<open>'close'\<close> event carries the
  exit code, \<open>null\<close> when a signal ended the process, and the name of that signal.
\<close>

record SpawnRequest =
  command :: string
  spawn_args :: "string list"
  cwd :: string
  shell :: bool
  stdio :: string

datatype child_event =
    ErrorEvent js_error
  | CloseEvent "int option" "string option"

datatype promise = Pending | Fulfilled | Rejected js_error

text \<open>Only the first \<open>resolve\<close> or \<open>reject\<close> settles a promise.\<close>

fun settle :: "promise \<Rightarrow> promise \<Rightarrow> promise" where
  "settle Pending outcome = outcome"
| "settle settled outcome = settled"

text \<open>
  The \<open>'close'\<close> listener: \<open>if (code) reject(new Error(...)) else resolve()\<close>. The
  code is a number or \<open>null\<close>; \<open>null\<close> and \<open>0\<close> are falsy, every other number is
  truthy.
\<close>

definition on_close :: "int option \<Rightarrow> promise" where
  "on_close code =
     (case code of
        None \<Rightarrow> Fulfilled
      | Some c \<Rightarrow>
          if c \<noteq> 0
          then Rejected (Error (''Cargo failed with exit code '' @ string_of_int c))
          else Fulfilled)"

fun listener :: "child_event \<Rightarrow> promise" where
  "listener (ErrorEvent e) = Rejected e"
| "listener (CloseEvent code signal) = on_close code"

record CargoRun =
  console :: "string list"
  spawned :: SpawnRequest
  promise :: promise

definition runCargo :: "string list \<Rightarrow> ExecutorContext \<Rightarrow> child_event list \<Rightarrow> CargoRun" where
  "runCargo args ctx events =
     \<lparr> console = [chalk (''> cargo '' @ join '' '' args)],
       spawned = \<lparr> command = ''cargo'', spawn_args = args, cwd = root ctx,
                   shell = True, stdio = ''inherit'' \<rparr>,
       promise = foldl (\<lambda>p ev. settle p (listener ev)) Pending events \<rparr>"


section \<open>Manifest member list\<close>

text \<open>
  The value the TOML parser returns: strings, integers, booleans, arrays and tables (in
  key order). Floats and date-times are left out; the function reads only the keys
  \<open>workspace\<close> and \<open>members\<close>.
\<close>

datatype toml =
    TString string
  | TInteger int
  | TBoolean bool
  | TArray "toml list"
  | TTable "(string \<times> toml) list"

text \<open>\<open>v.key\<close>: \<open>undefined\<close> unless \<open>v\<close> is a table with that key.\<close>

fun get_prop :: "toml \<Rightarrow> string \<Rightarrow> toml option" where
  "get_prop (TTable kvs) k = map_of kvs k"
| "get_prop v k = None"

fun assoc_set :: "string \<Rightarrow> toml \<Rightarrow> (string \<times> toml) list \<Rightarrow> (string \<times> toml) list" where
  "assoc_set k v [] = [(k, v)]"
| "assoc_set k v ((k', v') # kvs) =
     (if k' = k then (k, v) # kvs else (k', v') # assoc_set k v kvs)"

fun set_prop :: "toml \<Rightarrow> string \<Rightarrow> toml \<Rightarrow> toml" where
  "set_prop (TTable kvs) k v = TTable (assoc_set k v kvs)"
| "set_prop w k v = w"

fun truthy_toml :: "toml option \<Rightarrow> bool" where
  "truthy_toml None = False"
| "truthy_toml (Some (TString s)) = (s \<noteq> [])"
| "truthy_toml (Some (TInteger n)) = (n \<noteq> 0)"
| "truthy_toml (Some (TBoolean b)) = b"
| "truthy_toml (Some (TArray xs)) = True"
| "truthy_toml (Some (TTable kvs)) = True"

text \<open>
  The host tree is a map from paths to file contents; \<open>host.read\<close> gives \<open>null\<close> for a
  missing file. The parser, the serializer and the manifest path \<open>CARGO_TOML\<close> come from
  outside this module and are parameters. The document is a fresh tree, so pushing onto
  its member array in place is the update of that one entry.
\<close>

definition updateWorkspaceMembers ::
  "(string option \<Rightarrow> js_error + toml) \<Rightarrow> (toml \<Rightarrow> string) \<Rightarrow> string
   \<Rightarrow> (string \<rightharpoonup> string) \<Rightarrow> GeneratorOptions \<Rightarrow> js_error + (string \<rightharpoonup> string)" where
  "updateWorkspaceMembers parseToml stringifyToml CARGO_TOML host opts =
     (case parseToml (host CARGO_TOML) of
        Inl e \<Rightarrow> Inl e
      | Inr existingToml \<Rightarrow>
         (case get_prop existingToml ''workspace'' of
            None \<Rightarrow> Inl TypeError
          | Some workspace \<Rightarrow>
             (case (if truthy_toml (get_prop workspace ''members'')
                    then (case get_prop workspace ''members'' of
                            Some (TArray members) \<Rightarrow>
                              Inr (set_prop existingToml ''workspace''
                                     (set_prop workspace ''members''
                                        (TArray (members @ [TString (projectRoot opts)]))))
                          | _ \<Rightarrow> Inl TypeError)
                    else Inr existingToml) of
                Inl e \<Rightarrow> Inl e
              | Inr existingToml \<Rightarrow>
                 (let updated = stringifyToml existingToml
                  in Inr (host(CARGO_TOML \<mapsto> updated))))))"


section \<open>Example inputs\<close>

definition no_options :: CargoOptions where
  "no_options =
     \<lparr> toolchain = None, features = None, noDefaultFeatures = None, target = None,
       release = None, targetDir = None, outDir = None, verbose = None, veryVerbose = None,
       quiet = None, messageFormat = None, locked = None, frozen = None, offline = None \<rparr>"

definition example_projects :: "string \<rightharpoonup> ProjectConfiguration" where
  "example_projects =
     [''app'' \<mapsto> \<lparr> projectType = Some ''application'' \<rparr>,
      ''core'' \<mapsto> \<lparr> projectType = Some ''library'' \<rparr>]"

definition example_ctx :: "string option \<Rightarrow> string \<Rightarrow> ExecutorContext" where
  "example_ctx name action =
     \<lparr> root = ''/repo'', projectName = name, targetName = Some action,
       workspace_projects = example_projects \<rparr>"

definition example_generator_options :: GeneratorOptions where
  "example_generator_options =
     \<lparr> GeneratorOptions.projectName = ''core'', moduleName = ''core'', projectRoot = ''libs/core'',
       projectDirectory = ''core'', parsedTags = [], edition = 2021 \<rparr>"

definition example_manifest :: toml where
  "example_manifest = TTable [(''workspace'', TTable [(''resolver'', TString ''2'')])]"


section \<open>Lemmas on splitting\<close>

lemma str_split_nonempty: "str_split c s \<noteq> []"
  by (induction s) (auto split: list.splits)

lemma str_split_append:
  "str_split c (p @ c # a) = str_split c p @ str_split c a"
proof (induction p)
  case Nil
  show ?case by simp
next
  case (Cons x p)
  obtain s ss where sp: "str_split c p = s # ss"
    using str_split_nonempty [of c p] by (cases "str_split c p") auto
  show ?case using Cons sp by simp
qed

lemma str_split_no_sep: "c \<notin> set s \<Longrightarrow> str_split c s = [s]"
  by (induction s) auto

lemma at_last_str_split_append:
  "at_last (str_split c (p @ c # a)) = at_last (str_split c a)"
  by (simp add: at_last_def str_split_append str_split_nonempty)


section \<open>The vector as a concatenation of segments\<close>

lemma push_when_alt: "push_when c toks args = args @ (if c then toks else [])"
  by (simp add: push_when_def)

lemma startsWith_plus [simp]: "startsWith (CHR ''+'' # s) ''+''"
  by (simp add: startsWith_def)

lemma strip_plus_plus [simp]: "strip_plus (CHR ''+'' # s) = s"
  by (simp add: strip_plus_def)

lemma outDirStep_Cons:
  "outDirStep out (a0 # rest) =
     (if a0 = ''+nightly''
      then ([], Inr (a0 # rest @ [''-Z'', ''unstable-options'', ''--out-dir'', out]))
      else if startsWith a0 ''+''
      then ([chalk '' WARNING '' @ '' '' @ override_message (strip_plus a0)],
            Inr (''+nightly'' # rest @ [''-Z'', ''unstable-options'', ''--out-dir'', out]))
      else ([], Inr (''+nightly'' # a0 # rest @ [''-Z'', ''unstable-options'', ''--out-dir'', out])))"
  by (simp add: outDirStep_def Let_def)

lemma flag_not_plus: "\<not> startsWith (if bin then ''--bin'' else ''-p'') ''+''"
  "(if bin then ''--bin'' else ''-p'') \<noteq> ''+nightly''"
  by (simp_all add: startsWith_def)

lemma outDirStep_toolchain:
  "outDirStep out ((CHR ''+'' # tc) # rest) =
     (if tc \<noteq> ''nightly'' then [chalk '' WARNING '' @ '' '' @ override_message tc] else [],
      Inr (''+nightly'' # rest @ [''-Z'', ''unstable-options'', ''--out-dir'', out]))"
  by (simp add: outDirStep_Cons)

lemma outDirStep_flag:
  "outDirStep out ((if bin then ''--bin'' else ''-p'') # rest) =
     ([], Inr (''+nightly'' # (if bin then ''--bin'' else ''-p'') # rest
               @ [''-Z'', ''unstable-options'', ''--out-dir'', out]))"
  by (simp add: outDirStep_Cons startsWith_def)

lemma truthy_str_Some: "truthy_str v \<Longrightarrow> v = Some (str_of v)"
  by (cases v) (simp_all add: truthy_str_def str_of_def)

lemma parseCargoArgs_tokens:
  assumes name: "truthy_str (ExecutorContext.projectName ctx)"
    and bin: "isApplicationBuild ctx = Inr bin"
  shows "parseCargoArgs opts ctx =
     (overrideLines opts,
      Inr (toolchainTokens opts
           @ [if bin then ''--bin'' else ''-p'', str_of (ExecutorContext.projectName ctx)]
           @ featureTokens opts @ compileTokens opts @ outDirTokens opts
           @ displayTokens opts))"
proof (cases "truthy_str (outDir opts)")
  case False
  then show ?thesis
    using name bin
    by (simp add: parseCargoArgs_def Let_def push_when_alt overrideLines_def
        toolchainTokens_def featureTokens_def compileTokens_def outDirTokens_def
        displayTokens_def split del: if_split cong: if_cong)
next
  case out: True
  show ?thesis
  proof (cases "truthy_str (toolchain opts)")
    case False
    then show ?thesis
      using name bin out
      by (simp add: parseCargoArgs_def Let_def push_when_alt overrideLines_def
          toolchainTokens_def featureTokens_def compileTokens_def outDirTokens_def
          displayTokens_def outDirStep_flag split del: if_split cong: if_cong)
  next
    case True
    then have tc: "toolchain opts = Some (str_of (toolchain opts))"
      by (rule truthy_str_Some)
    show ?thesis
      using name bin out True tc
      by (simp add: parseCargoArgs_def Let_def push_when_alt overrideLines_def
          toolchainTokens_def featureTokens_def compileTokens_def outDirTokens_def
          displayTokens_def outDirStep_toolchain split del: if_split cong: if_cong)
  qed
qed

lemma isApplicationBuild_valid:
  assumes "targetName ctx = Some ''build'' \<longrightarrow>
           workspace_projects ctx (str_of (ExecutorContext.projectName ctx)) \<noteq> None"
  shows "\<exists>bin. isApplicationBuild ctx = Inr bin"
  using assms by (auto simp: isApplicationBuild_def split: option.splits)

lemma isApplicationBuild_application:
  "targetName ctx = Some ''build'' \<Longrightarrow>
   workspace_projects ctx (str_of (ExecutorContext.projectName ctx)) = Some p \<Longrightarrow>
   isApplicationBuild ctx = Inr (projectType p = Some ''application'')"
  by (simp add: isApplicationBuild_def)

lemma isApplicationBuild_other_target:
  "targetName ctx \<noteq> Some ''build'' \<Longrightarrow> isApplicationBuild ctx = Inr False"
  by (simp add: isApplicationBuild_def)

lemma parseCargoArgs_no_name:
  "\<not> truthy_str (ExecutorContext.projectName ctx) \<Longrightarrow>
   parseCargoArgs opts ctx = ([], Inl (Error ''Expected project name to be non-null''))"
  by (simp add: parseCargoArgs_def Let_def)

lemma parseCargoArgs_lookup_fails:
  "truthy_str (ExecutorContext.projectName ctx) \<Longrightarrow> isApplicationBuild ctx = Inl e \<Longrightarrow>
   parseCargoArgs opts ctx = ([], Inl e)"
  by (simp add: parseCargoArgs_def Let_def)

lemma parseCargoArgs_returns:
  assumes "snd (parseCargoArgs opts ctx) = Inr args"
  shows "truthy_str (ExecutorContext.projectName ctx) \<and> (\<exists>bin. isApplicationBuild ctx = Inr bin)"
proof (cases "truthy_str (ExecutorContext.projectName ctx)")
  case False
  then show ?thesis using assms by (simp add: parseCargoArgs_no_name)
next
  case True
  show ?thesis
  proof (cases "isApplicationBuild ctx")
    case (Inl e)
    then show ?thesis using assms True by (simp add: parseCargoArgs_lookup_fails)
  next
    case (Inr bin)
    then show ?thesis using True by simp
  qed
qed

lemma toolchainTokens_shape:
  "length (toolchainTokens opts) \<le> 1 \<and> (\<forall>t \<in> set (toolchainTokens opts). startsWith t ''+'')"
  by (simp add: toolchainTokens_def startsWith_def)


section \<open>Tokens of the segments\<close>

lemma featureTokens_all:
  "P ''--all-features'' \<Longrightarrow> P ''--features'' \<Longrightarrow> P (str_of (features opts)) \<Longrightarrow>
   \<forall>t \<in> set (featureTokens opts). P t"
  by (auto simp: featureTokens_def)

lemma compileTokens_all:
  "P ''--no-default-features'' \<Longrightarrow> P ''--target'' \<Longrightarrow> P (str_of (target opts)) \<Longrightarrow>
   P ''--release'' \<Longrightarrow> P ''--target-dir'' \<Longrightarrow> P (str_of (targetDir opts)) \<Longrightarrow>
   \<forall>t \<in> set (compileTokens opts). P t"
  by (auto simp: compileTokens_def)

lemma outDirTokens_all:
  "P ''-Z'' \<Longrightarrow> P ''unstable-options'' \<Longrightarrow> P ''--out-dir'' \<Longrightarrow> P (str_of (outDir opts)) \<Longrightarrow>
   \<forall>t \<in> set (outDirTokens opts). P t"
  by (auto simp: outDirTokens_def)

lemma displayTokens_all:
  "P ''-v'' \<Longrightarrow> P ''-vv'' \<Longrightarrow> P ''-q'' \<Longrightarrow> P ''--message-format'' \<Longrightarrow>
   P (str_of (messageFormat opts)) \<Longrightarrow> P ''--locked'' \<Longrightarrow> P ''--frozen'' \<Longrightarrow> P ''--offline'' \<Longrightarrow>
   \<forall>t \<in> set (displayTokens opts). P t"
  by (auto simp: displayTokens_def)

lemma featureTokens_no_plus:
  "\<not> startsWith (str_of (features opts)) ''+'' \<Longrightarrow>
   \<forall>t \<in> set (featureTokens opts). \<not> startsWith t ''+''"
  by (rule featureTokens_all) (simp_all add: startsWith_def)

lemma compileTokens_no_plus:
  "\<not> startsWith (str_of (target opts)) ''+'' \<Longrightarrow> \<not> startsWith (str_of (targetDir opts)) ''+'' \<Longrightarrow>
   \<forall>t \<in> set (compileTokens opts). \<not> startsWith t ''+''"
  by (rule compileTokens_all) (simp_all add: startsWith_def)

lemma outDirTokens_no_plus:
  "\<not> truthy_str (outDir opts) \<or> \<not> startsWith (str_of (outDir opts)) ''+'' \<Longrightarrow>
   \<forall>t \<in> set (outDirTokens opts). \<not> startsWith t ''+''"
  by (auto simp: outDirTokens_def startsWith_def)

lemma displayTokens_no_plus:
  "\<not> startsWith (str_of (messageFormat opts)) ''+'' \<Longrightarrow>
   \<forall>t \<in> set (displayTokens opts). \<not> startsWith t ''+''"
  by (rule displayTokens_all) (simp_all add: startsWith_def)

lemma rest_tokens_no_plus:
  assumes "\<not> startsWith (str_of (ExecutorContext.projectName ctx)) ''+''"
    and "\<not> startsWith (str_of (features opts)) ''+''"
    and "\<not> startsWith (str_of (target opts)) ''+''"
    and "\<not> startsWith (str_of (targetDir opts)) ''+''"
    and "\<not> truthy_str (outDir opts) \<or> \<not> startsWith (str_of (outDir opts)) ''+''"
    and "\<not> startsWith (str_of (messageFormat opts)) ''+''"
  shows "\<forall>t \<in> set ([if bin then ''--bin'' else ''-p'', str_of (ExecutorContext.projectName ctx)]
        @ featureTokens opts @ compileTokens opts @ outDirTokens opts @ displayTokens opts).
        \<not> startsWith t ''+''"
proof -
  have "\<forall>t \<in> set [if bin then ''--bin'' else ''-p'', str_of (ExecutorContext.projectName ctx)].
          \<not> startsWith t ''+''"
    using assms(1) flag_not_plus(1) [of bin] by simp
  then show ?thesis
    using featureTokens_no_plus [OF assms(2)] compileTokens_no_plus [OF assms(3) assms(4)]
      outDirTokens_no_plus [OF assms(5)] displayTokens_no_plus [OF assms(6)]
    unfolding set_append by blast
qed

lemma featureTokens_all_sentinel:
  "features opts = Some ''all'' \<Longrightarrow> featureTokens opts = [''--all-features'']"
  by (simp add: featureTokens_def truthy_str_def)

lemma featureTokens_value:
  "features opts = Some v \<Longrightarrow> v \<noteq> [] \<Longrightarrow> v \<noteq> ''all'' \<Longrightarrow>
   featureTokens opts = [''--features'', v]"
  by (simp add: featureTokens_def truthy_str_def str_of_def)

lemma toolchainTokens_not_features: "''--features'' \<notin> set (toolchainTokens opts)"
  using toolchainTokens_shape [of opts] by (auto simp: startsWith_def)

lemma compileTokens_not_features:
  "str_of (target opts) \<noteq> ''--features'' \<Longrightarrow> str_of (targetDir opts) \<noteq> ''--features'' \<Longrightarrow>
   \<forall>t \<in> set (compileTokens opts). t \<noteq> ''--features''"
  by (rule compileTokens_all) simp_all

lemma outDirTokens_not_features:
  "str_of (outDir opts) \<noteq> ''--features'' \<Longrightarrow>
   \<forall>t \<in> set (outDirTokens opts). t \<noteq> ''--features''"
  by (rule outDirTokens_all) simp_all

lemma displayTokens_not_features:
  "str_of (messageFormat opts) \<noteq> ''--features'' \<Longrightarrow>
   \<forall>t \<in> set (displayTokens opts). t \<noteq> ''--features''"
  by (rule displayTokens_all) simp_all


section \<open>Settling the promise\<close>

lemma settle_settled:
  "q \<noteq> Pending \<Longrightarrow> foldl (\<lambda>p ev. settle p (listener ev)) q events = q"
proof (induction events arbitrary: q)
  case Nil
  show ?case by simp
next
  case (Cons ev events)
  from Cons.prems have "settle q (listener ev) = q" by (cases q) simp_all
  with Cons show ?case by simp
qed

lemma on_close_code:
  "on_close (Some c) =
     (if c = 0 then Fulfilled
      else Rejected (Error (''Cargo failed with exit code '' @ string_of_int c)))"
  by (simp add: on_close_def)

lemma promise_first_event:
  "listener ev \<noteq> Pending \<Longrightarrow> promise (runCargo args ctx (ev # events)) = listener ev"
  by (simp add: runCargo_def settle_settled)


section \<open>Rewriting the manifest\<close>

lemma updateWorkspaceMembers_appends:
  assumes "parseToml (host CARGO_TOML) = Inr doc"
    and "get_prop doc ''workspace'' = Some (TTable ws)"
    and "map_of ws ''members'' = Some (TArray members)"
  shows "updateWorkspaceMembers parseToml stringifyToml CARGO_TOML host opts
         = Inr (host(CARGO_TOML \<mapsto> stringifyToml
                  (set_prop doc ''workspace''
                     (TTable (assoc_set ''members''
                                (TArray (members @ [TString (projectRoot opts)])) ws)))))"
  using assms by (simp add: updateWorkspaceMembers_def)

lemma updateWorkspaceMembers_no_workspace:
  assumes "parseToml (host CARGO_TOML) = Inr doc"
    and "get_prop doc ''workspace'' = None"
  shows "updateWorkspaceMembers parseToml stringifyToml CARGO_TOML host opts = Inl TypeError"
  using assms by (simp add: updateWorkspaceMembers_def)


section \<open>Evaluation on the example inputs\<close>

lemmas run_defs = parseCargoArgs_def Let_def push_when_def isApplicationBuild_def outDirStep_def
  no_options_def example_ctx_def example_projects_def truthy_str_def truthy_bool_def str_of_def
  startsWith_def strip_plus_def


section \<open>Claims on the argument vector builder\<close>

text \<open>
  C1, as amended. For every options record and every context with a non-empty package
  name: if the target action is \<open>build\<close> and the package is registered with kind
  \<open>application\<close>, the returned vector has the flag \<open>--bin\<close> immediately followed by
  the package name token; if the action is not \<open>build\<close>, or the package is registered
  with any other kind (a library), it has the flag \<open>-p\<close> immediately followed by the
  package name token. In both cases at most one token, a \<open>+\<close>-prefixed toolchain token,
  stands before the flag. The name is pushed after the \<open>if\<close>/\<open>else\<close>, so it follows
  \<open>--bin\<close> as it follows \<open>-p\<close>.
\<close>

theorem parseCargoArgs_selection_flag:
  assumes name: "truthy_str (ExecutorContext.projectName ctx)"
  shows "(targetName ctx = Some ''build''
          \<and> (\<exists>p. workspace_projects ctx (str_of (ExecutorContext.projectName ctx)) = Some p
                   \<and> projectType p = Some ''application'')
          \<longrightarrow> (\<exists>pre post. snd (parseCargoArgs opts ctx)
                    = Inr (pre @ [''--bin'', str_of (ExecutorContext.projectName ctx)] @ post)
                  \<and> length pre \<le> 1 \<and> (\<forall>t \<in> set pre. startsWith t ''+'')))
       \<and> (targetName ctx \<noteq> Some ''build''
          \<or> (\<exists>p. workspace_projects ctx (str_of (ExecutorContext.projectName ctx)) = Some p
                   \<and> projectType p \<noteq> Some ''application'')
          \<longrightarrow> (\<exists>pre post. snd (parseCargoArgs opts ctx)
                    = Inr (pre @ [''-p'', str_of (ExecutorContext.projectName ctx)] @ post)
                  \<and> length pre \<le> 1 \<and> (\<forall>t \<in> set pre. startsWith t ''+'')))"
proof (intro conjI impI)
  let ?n = "str_of (ExecutorContext.projectName ctx)"
  let ?post = "featureTokens opts @ compileTokens opts @ outDirTokens opts @ displayTokens opts"
  assume "targetName ctx = Some ''build''
          \<and> (\<exists>p. workspace_projects ctx ?n = Some p \<and> projectType p = Some ''application'')"
  then have "isApplicationBuild ctx = Inr True"
    by (auto simp: isApplicationBuild_application)
  then have "snd (parseCargoArgs opts ctx) = Inr (toolchainTokens opts @ [''--bin'', ?n] @ ?post)"
    using parseCargoArgs_tokens [OF name, of True opts] by simp
  then show "\<exists>pre post. snd (parseCargoArgs opts ctx) = Inr (pre @ [''--bin'', ?n] @ post)
                  \<and> length pre \<le> 1 \<and> (\<forall>t \<in> set pre. startsWith t ''+'')"
    using toolchainTokens_shape [of opts] by blast
next
  let ?n = "str_of (ExecutorContext.projectName ctx)"
  let ?post = "featureTokens opts @ compileTokens opts @ outDirTokens opts @ displayTokens opts"
  assume "targetName ctx \<noteq> Some ''build''
          \<or> (\<exists>p. workspace_projects ctx ?n = Some p \<and> projectType p \<noteq> Some ''application'')"
  then have "isApplicationBuild ctx = Inr False"
  proof (cases "targetName ctx = Some ''build''")
    case True
    assume "targetName ctx \<noteq> Some ''build''
          \<or> (\<exists>p. workspace_projects ctx ?n = Some p \<and> projectType p \<noteq> Some ''application'')"
    with True obtain p where "workspace_projects ctx ?n = Some p"
      and "projectType p \<noteq> Some ''application''" by blast
    with True show ?thesis by (simp add: isApplicationBuild_application)
  next
    case False
    then show ?thesis by (rule isApplicationBuild_other_target)
  qed
  then have "snd (parseCargoArgs opts ctx) = Inr (toolchainTokens opts @ [''-p'', ?n] @ ?post)"
    using parseCargoArgs_tokens [OF name, of False opts] by simp
  then show "\<exists>pre post. snd (parseCargoArgs opts ctx) = Inr (pre @ [''-p'', ?n] @ post)
                  \<and> length pre \<le> 1 \<and> (\<forall>t \<in> set pre. startsWith t ''+'')"
    using toolchainTokens_shape [of opts] by blast
qed

text \<open>
  C1 at two build targets and one test target of the example workspace.
\<close>

theorem parseCargoArgs_selection_flag_witness:
  "truthy_str (ExecutorContext.projectName (example_ctx (Some ''app'') ''build''))
   \<and> (\<exists>pre post. snd (parseCargoArgs no_options (example_ctx (Some ''app'') ''build''))
          = Inr (pre @ [''--bin'', ''app''] @ post))
   \<and> (\<exists>pre post. snd (parseCargoArgs no_options (example_ctx (Some ''core'') ''build''))
          = Inr (pre @ [''-p'', ''core''] @ post))
   \<and> (\<exists>pre post. snd (parseCargoArgs no_options (example_ctx (Some ''app'') ''test''))
          = Inr (pre @ [''-p'', ''app''] @ post))"
proof -
  have n1: "truthy_str (ExecutorContext.projectName (example_ctx (Some ''app'') ''build''))"
    and n2: "truthy_str (ExecutorContext.projectName (example_ctx (Some ''core'') ''build''))"
    and n3: "truthy_str (ExecutorContext.projectName (example_ctx (Some ''app'') ''test''))"
    by (simp_all add: example_ctx_def truthy_str_def)
  have "\<exists>pre post. snd (parseCargoArgs no_options (example_ctx (Some ''app'') ''build''))
          = Inr (pre @ [''--bin'', ''app''] @ post)"
    using parseCargoArgs_selection_flag [OF n1, of no_options]
    by (simp add: example_ctx_def example_projects_def str_of_def) blast
  moreover have "\<exists>pre post. snd (parseCargoArgs no_options (example_ctx (Some ''core'') ''build''))
          = Inr (pre @ [''-p'', ''core''] @ post)"
    using parseCargoArgs_selection_flag [OF n2, of no_options]
    by (simp add: example_ctx_def example_projects_def str_of_def) blast
  moreover have "\<exists>pre post. snd (parseCargoArgs no_options (example_ctx (Some ''app'') ''test''))
          = Inr (pre @ [''-p'', ''app''] @ post)"
    using parseCargoArgs_selection_flag [OF n3, of no_options]
    by (simp add: example_ctx_def example_projects_def str_of_def) blast
  ultimately show ?thesis using n1 by blast
qed

text \<open>
  C1 as it was stated fails: a build of the application \<open>app\<close> returns
  \<open>["--bin", "app"]\<close>, where the package name token is present in the binary-selection
  branch.
\<close>

theorem parseCargoArgs_bin_names_package:
  "parseCargoArgs no_options (example_ctx (Some ''app'') ''build'') = ([], Inr [''--bin'', ''app''])
   \<and> ''app'' \<in> set [''--bin'', ''app'']"
  by (simp add: run_defs)

text \<open>
  C3, as amended. For every options record in which neither toolchain nor outDir is set
  (absent or empty), whenever \<open>parseCargoArgs\<close> returns a vector and none of the values
  it copies from the caller (package name, features, target, targetDir, messageFormat)
  starts with \<open>+\<close>, no token of the vector starts with \<open>+\<close>.
\<close>

theorem parseCargoArgs_no_toolchain_token:
  assumes tc: "\<not> truthy_str (toolchain opts)"
    and out: "\<not> truthy_str (outDir opts)"
    and ret: "snd (parseCargoArgs opts ctx) = Inr args"
    and vals: "\<not> startsWith (str_of (ExecutorContext.projectName ctx)) ''+''"
      "\<not> startsWith (str_of (features opts)) ''+''"
      "\<not> startsWith (str_of (target opts)) ''+''"
      "\<not> startsWith (str_of (targetDir opts)) ''+''"
      "\<not> startsWith (str_of (messageFormat opts)) ''+''"
  shows "\<forall>t \<in> set args. \<not> startsWith t ''+''"
proof -
  from parseCargoArgs_returns [OF ret] obtain bin
    where name: "truthy_str (ExecutorContext.projectName ctx)"
      and bin: "isApplicationBuild ctx = Inr bin" by blast
  have "toolchainTokens opts = []"
    using tc out by (simp add: toolchainTokens_def)
  then have "args = [if bin then ''--bin'' else ''-p'', str_of (ExecutorContext.projectName ctx)]
           @ featureTokens opts @ compileTokens opts @ outDirTokens opts @ displayTokens opts"
    using parseCargoArgs_tokens [OF name bin, of opts] ret by simp
  moreover have "\<forall>t \<in> set ([if bin then ''--bin'' else ''-p'',
           str_of (ExecutorContext.projectName ctx)]
           @ featureTokens opts @ compileTokens opts @ outDirTokens opts @ displayTokens opts).
           \<not> startsWith t ''+''"
    by (rule rest_tokens_no_plus) (use vals out in simp_all)
  ultimately show ?thesis by simp
qed

text \<open>
  C3 at the options \<open>{features: "x,y", release: true}\<close>.
\<close>

theorem parseCargoArgs_no_toolchain_token_witness:
  "\<not> truthy_str (toolchain (no_options\<lparr>features := Some ''x,y'', release := Some True\<rparr>))
   \<and> \<not> truthy_str (outDir (no_options\<lparr>features := Some ''x,y'', release := Some True\<rparr>))
   \<and> snd (parseCargoArgs (no_options\<lparr>features := Some ''x,y'', release := Some True\<rparr>)
            (example_ctx (Some ''core'') ''test''))
       = Inr [''-p'', ''core'', ''--features'', ''x,y'', ''--release'']
   \<and> list_all (\<lambda>t. \<not> startsWith t ''+'')
        [''-p'', ''core'', ''--features'', ''x,y'', ''--release'']"
proof -
  let ?o = "no_options\<lparr>features := Some ''x,y'', release := Some True\<rparr>"
  let ?c = "example_ctx (Some ''core'') ''test''"
  have tc: "\<not> truthy_str (toolchain ?o)" and out: "\<not> truthy_str (outDir ?o)"
    by (simp_all add: no_options_def truthy_str_def)
  have ret: "snd (parseCargoArgs ?o ?c) = Inr [''-p'', ''core'', ''--features'', ''x,y'', ''--release'']"
    by (simp add: run_defs)
  have vals: "\<not> startsWith (str_of (ExecutorContext.projectName ?c)) ''+''"
      "\<not> startsWith (str_of (features ?o)) ''+''"
      "\<not> startsWith (str_of (target ?o)) ''+''"
      "\<not> startsWith (str_of (targetDir ?o)) ''+''"
      "\<not> startsWith (str_of (messageFormat ?o)) ''+''"
    by (simp_all add: no_options_def example_ctx_def str_of_def startsWith_def)
  from parseCargoArgs_no_toolchain_token [OF tc out ret vals] tc out ret
  show ?thesis unfolding list_all_iff by blast
qed

text \<open>
  C3 as it was stated fails: values are copied as they are, so with neither toolchain nor
  outDir set the target directory \<open>+target\<close> is a token that starts with \<open>+\<close>.
\<close>

theorem parseCargoArgs_plus_value_token:
  "toolchain (no_options\<lparr>targetDir := Some ''+target''\<rparr>) = None
   \<and> outDir (no_options\<lparr>targetDir := Some ''+target''\<rparr>) = None
   \<and> snd (parseCargoArgs (no_options\<lparr>targetDir := Some ''+target''\<rparr>)
            (example_ctx (Some ''core'') ''test''))
       = Inr [''-p'', ''core'', ''--target-dir'', ''+target'']
   \<and> startsWith ''+target'' ''+''"
  by (simp add: run_defs)

text \<open>
  C4, as amended. For every options record with outDir set (non-empty) and toolchain
  \<open>"stable"\<close>, and every context with a non-empty package name that is registered when
  the target is \<open>build\<close>: exactly one line, the override warning for \<open>stable\<close>, is
  written to the console and the first token of the returned vector is \<open>+nightly\<close>,
  whatever the other values are; and provided none of the values copied from the caller
  (package name, features, target, targetDir, outDir, messageFormat) starts with
  \<open>+\<close>, no other token starts with \<open>+\<close>: the \<open>+stable\<close> token is replaced, not
  kept.
\<close>

theorem parseCargoArgs_stable_overridden:
  assumes out: "truthy_str (outDir opts)"
    and tc: "toolchain opts = Some ''stable''"
    and name: "truthy_str (ExecutorContext.projectName ctx)"
    and valid: "targetName ctx = Some ''build'' \<longrightarrow>
           workspace_projects ctx (str_of (ExecutorContext.projectName ctx)) \<noteq> None"
  shows "\<exists>rest. parseCargoArgs opts ctx =
           ([chalk '' WARNING '' @ '' '' @ override_message ''stable''], Inr (''+nightly'' # rest))
         \<and> (\<not> startsWith (str_of (ExecutorContext.projectName ctx)) ''+''
            \<and> \<not> startsWith (str_of (features opts)) ''+''
            \<and> \<not> startsWith (str_of (target opts)) ''+''
            \<and> \<not> startsWith (str_of (targetDir opts)) ''+''
            \<and> \<not> startsWith (str_of (outDir opts)) ''+''
            \<and> \<not> startsWith (str_of (messageFormat opts)) ''+''
            \<longrightarrow> (\<forall>t \<in> set rest. \<not> startsWith t ''+''))"
proof -
  obtain bin where bin: "isApplicationBuild ctx = Inr bin"
    using isApplicationBuild_valid [OF valid] by blast
  let ?rest = "[if bin then ''--bin'' else ''-p'', str_of (ExecutorContext.projectName ctx)]
           @ featureTokens opts @ compileTokens opts @ outDirTokens opts @ displayTokens opts"
  have lines: "overrideLines opts = [chalk '' WARNING '' @ '' '' @ override_message ''stable'']"
    using out tc by (simp add: overrideLines_def truthy_str_def str_of_def)
  have first: "toolchainTokens opts = [''+nightly'']"
    using out by (simp add: toolchainTokens_def)
  have ret: "parseCargoArgs opts ctx =
          ([chalk '' WARNING '' @ '' '' @ override_message ''stable''], Inr (''+nightly'' # ?rest))"
    using parseCargoArgs_tokens [OF name bin, of opts] lines first by simp
  have others: "\<forall>t \<in> set ?rest. \<not> startsWith t ''+''"
    if vals: "\<not> startsWith (str_of (ExecutorContext.projectName ctx)) ''+''
            \<and> \<not> startsWith (str_of (features opts)) ''+''
            \<and> \<not> startsWith (str_of (target opts)) ''+''
            \<and> \<not> startsWith (str_of (targetDir opts)) ''+''
            \<and> \<not> startsWith (str_of (outDir opts)) ''+''
            \<and> \<not> startsWith (str_of (messageFormat opts)) ''+''"
    by (rule rest_tokens_no_plus) (use vals in simp_all)
  from ret others show ?thesis by blast
qed

text \<open>
  C4 at the options \<open>{toolchain: "stable", outDir: "dist"}\<close>, where no value starts
  with \<open>+\<close>, and at the output directory \<open>+out\<close>, where the warning and the first
  token are the same.
\<close>

theorem parseCargoArgs_stable_overridden_witness:
  "truthy_str (outDir (no_options\<lparr>toolchain := Some ''stable'', outDir := Some ''dist''\<rparr>))
   \<and> toolchain (no_options\<lparr>toolchain := Some ''stable'', outDir := Some ''dist''\<rparr>) = Some ''stable''
   \<and> (\<exists>rest. parseCargoArgs (no_options\<lparr>toolchain := Some ''stable'', outDir := Some ''dist''\<rparr>)
                (example_ctx (Some ''core'') ''build'')
         = ([chalk '' WARNING '' @ '' '' @ override_message ''stable''], Inr (''+nightly'' # rest))
         \<and> (\<forall>t \<in> set rest. \<not> startsWith t ''+''))
   \<and> (\<exists>rest. parseCargoArgs (no_options\<lparr>toolchain := Some ''stable'', outDir := Some ''+out''\<rparr>)
                (example_ctx (Some ''core'') ''build'')
         = ([chalk '' WARNING '' @ '' '' @ override_message ''stable''], Inr (''+nightly'' # rest)))"
proof -
  let ?o = "no_options\<lparr>toolchain := Some ''stable'', outDir := Some ''dist''\<rparr>"
  let ?p = "no_options\<lparr>toolchain := Some ''stable'', outDir := Some ''+out''\<rparr>"
  let ?c = "example_ctx (Some ''core'') ''build''"
  have out: "truthy_str (outDir ?o)" and tc: "toolchain ?o = Some ''stable''"
    and out': "truthy_str (outDir ?p)" and tc': "toolchain ?p = Some ''stable''"
    and name: "truthy_str (ExecutorContext.projectName ?c)"
    by (simp_all add: no_options_def example_ctx_def truthy_str_def)
  have valid: "targetName ?c = Some ''build'' \<longrightarrow>
           workspace_projects ?c (str_of (ExecutorContext.projectName ?c)) \<noteq> None"
    by (simp add: example_ctx_def example_projects_def str_of_def)
  have vals: "\<not> startsWith (str_of (ExecutorContext.projectName ?c)) ''+''
      \<and> \<not> startsWith (str_of (features ?o)) ''+''
      \<and> \<not> startsWith (str_of (target ?o)) ''+''
      \<and> \<not> startsWith (str_of (targetDir ?o)) ''+''
      \<and> \<not> startsWith (str_of (outDir ?o)) ''+''
      \<and> \<not> startsWith (str_of (messageFormat ?o)) ''+''"
    by (simp add: no_options_def example_ctx_def str_of_def startsWith_def)
  from parseCargoArgs_stable_overridden [OF out tc name valid] vals
  have "\<exists>rest. parseCargoArgs ?o ?c
         = ([chalk '' WARNING '' @ '' '' @ override_message ''stable''], Inr (''+nightly'' # rest))
         \<and> (\<forall>t \<in> set rest. \<not> startsWith t ''+'')"
    by blast
  moreover from parseCargoArgs_stable_overridden [OF out' tc' name valid]
  have "\<exists>rest. parseCargoArgs ?p ?c
         = ([chalk '' WARNING '' @ '' '' @ override_message ''stable''], Inr (''+nightly'' # rest))"
    by blast
  ultimately show ?thesis using out tc by blast
qed

text \<open>
  C4 as it was stated fails: with the output directory \<open>+out\<close> the one warning is
  written and \<open>+nightly\<close> is first, but the vector has a second token that starts with
  \<open>+\<close>, the value after \<open>--out-dir\<close>.
\<close>

theorem parseCargoArgs_stable_plus_outDir:
  "parseCargoArgs (no_options\<lparr>toolchain := Some ''stable'', outDir := Some ''+out''\<rparr>)
          (example_ctx (Some ''core'') ''build'')
     = ([chalk '' WARNING '' @ '' '' @ override_message ''stable''],
        Inr [''+nightly'', ''-p'', ''core'', ''-Z'', ''unstable-options'', ''--out-dir'', ''+out''])
   \<and> startsWith ''+out'' ''+''"
  by (simp add: run_defs)

text \<open>
  C5. For every options record with outDir set (non-empty) and no toolchain set, and every
  context with a non-empty package name that is registered when the target is
  \<open>build\<close>: \<open>parseCargoArgs\<close> returns a vector whose first token is \<open>+nightly\<close>
  and which contains, in sequence, \<open>-Z\<close>, \<open>unstable-options\<close>, \<open>--out-dir\<close> and
  the outDir value; nothing is written to the console.
\<close>

theorem parseCargoArgs_outDir_nightly:
  assumes out: "truthy_str (outDir opts)"
    and tc: "\<not> truthy_str (toolchain opts)"
    and name: "truthy_str (ExecutorContext.projectName ctx)"
    and valid: "targetName ctx = Some ''build'' \<longrightarrow>
           workspace_projects ctx (str_of (ExecutorContext.projectName ctx)) \<noteq> None"
  shows "\<exists>pre post. parseCargoArgs opts ctx =
           ([], Inr (''+nightly'' # pre
                     @ [''-Z'', ''unstable-options'', ''--out-dir'', str_of (outDir opts)] @ post))"
proof -
  obtain bin where bin: "isApplicationBuild ctx = Inr bin"
    using isApplicationBuild_valid [OF valid] by blast
  have "parseCargoArgs opts ctx =
     ([], Inr (''+nightly'' #
          ([if bin then ''--bin'' else ''-p'', str_of (ExecutorContext.projectName ctx)]
           @ featureTokens opts @ compileTokens opts)
          @ [''-Z'', ''unstable-options'', ''--out-dir'', str_of (outDir opts)]
          @ displayTokens opts))"
    using parseCargoArgs_tokens [OF name bin, of opts] out tc
    by (simp add: overrideLines_def toolchainTokens_def outDirTokens_def)
  then show ?thesis by blast
qed

text \<open>
  C5 at the options \<open>{outDir: "dist"}\<close> and a build of the application.
\<close>

theorem parseCargoArgs_outDir_nightly_witness:
  "truthy_str (outDir (no_options\<lparr>outDir := Some ''dist''\<rparr>))
   \<and> \<not> truthy_str (toolchain (no_options\<lparr>outDir := Some ''dist''\<rparr>))
   \<and> (\<exists>pre post. parseCargoArgs (no_options\<lparr>outDir := Some ''dist''\<rparr>)
                     (example_ctx (Some ''app'') ''build'') =
           ([], Inr (''+nightly'' # pre
                     @ [''-Z'', ''unstable-options'', ''--out-dir'', ''dist''] @ post)))"
proof -
  let ?o = "no_options\<lparr>outDir := Some ''dist''\<rparr>"
  let ?c = "example_ctx (Some ''app'') ''build''"
  have out: "truthy_str (outDir ?o)" and tc: "\<not> truthy_str (toolchain ?o)"
    and name: "truthy_str (ExecutorContext.projectName ?c)"
    by (simp_all add: no_options_def example_ctx_def truthy_str_def)
  have valid: "targetName ?c = Some ''build'' \<longrightarrow>
           workspace_projects ?c (str_of (ExecutorContext.projectName ?c)) \<noteq> None"
    by (simp add: example_ctx_def example_projects_def str_of_def)
  have d: "str_of (outDir ?o) = ''dist''" by (simp add: str_of_def)
  from parseCargoArgs_outDir_nightly [OF out tc name valid] out tc
  show ?thesis unfolding d by blast
qed

text \<open>
  C6. For every options record and every context whose package name is absent or empty,
  \<open>parseCargoArgs\<close> throws the error "Expected project name to be non-null": no
  vector is returned, not even the toolchain token pushed before the check, and nothing
  is written to the console.
\<close>

theorem parseCargoArgs_missing_name:
  assumes "ExecutorContext.projectName ctx = None \<or> ExecutorContext.projectName ctx = Some []"
  shows "parseCargoArgs opts ctx = ([], Inl (Error ''Expected project name to be non-null''))"
proof -
  from assms have "\<not> truthy_str (ExecutorContext.projectName ctx)"
    by (auto simp: truthy_str_def)
  then show ?thesis by (rule parseCargoArgs_no_name)
qed

text \<open>
  C6 at an absent name with a toolchain set, and at an empty name.
\<close>

theorem parseCargoArgs_missing_name_witness:
  "ExecutorContext.projectName (example_ctx None ''build'') = None
   \<and> parseCargoArgs (no_options\<lparr>toolchain := Some ''stable''\<rparr>) (example_ctx None ''build'')
       = ([], Inl (Error ''Expected project name to be non-null''))
   \<and> parseCargoArgs no_options (example_ctx (Some []) ''test'')
       = ([], Inl (Error ''Expected project name to be non-null''))"
proof -
  have a: "ExecutorContext.projectName (example_ctx None ''build'') = None"
    and b: "ExecutorContext.projectName (example_ctx (Some []) ''test'') = Some []"
    by (simp_all add: example_ctx_def)
  show ?thesis
    using parseCargoArgs_missing_name [OF disjI1, OF a]
      parseCargoArgs_missing_name [OF disjI2, OF b] a by blast
qed

text \<open>
  C7, as amended. For every options record and every context with a non-empty package name
  that is registered when the target is \<open>build\<close>: if features is \<open>"all"\<close>, the
  token \<open>--all-features\<close> stands right after the package name token, and provided none
  of the values copied from the caller (package name, target, targetDir, outDir,
  messageFormat) is itself \<open>--features\<close>, the vector has no \<open>--features\<close> token; if
  features is any other non-empty string \<open>v\<close>, the tokens \<open>--features\<close> and \<open>v\<close>
  stand, in this order, right after the package name token.
\<close>

theorem parseCargoArgs_features:
  assumes name: "truthy_str (ExecutorContext.projectName ctx)"
    and valid: "targetName ctx = Some ''build'' \<longrightarrow>
           workspace_projects ctx (str_of (ExecutorContext.projectName ctx)) \<noteq> None"
  shows "(features opts = Some ''all'' \<longrightarrow>
           (\<exists>pre post. snd (parseCargoArgs opts ctx) = Inr (pre @ [''--all-features''] @ post)
              \<and> pre \<noteq> [] \<and> last pre = str_of (ExecutorContext.projectName ctx)
              \<and> (str_of (ExecutorContext.projectName ctx) \<noteq> ''--features''
                  \<and> str_of (target opts) \<noteq> ''--features''
                  \<and> str_of (targetDir opts) \<noteq> ''--features''
                  \<and> str_of (outDir opts) \<noteq> ''--features''
                  \<and> str_of (messageFormat opts) \<noteq> ''--features''
                  \<longrightarrow> ''--features'' \<notin> set (pre @ [''--all-features''] @ post))))
       \<and> (\<forall>v. features opts = Some v \<and> v \<noteq> [] \<and> v \<noteq> ''all'' \<longrightarrow>
           (\<exists>pre post. snd (parseCargoArgs opts ctx) = Inr (pre @ [''--features'', v] @ post)
              \<and> pre \<noteq> [] \<and> last pre = str_of (ExecutorContext.projectName ctx)))"
proof -
  let ?n = "str_of (ExecutorContext.projectName ctx)"
  obtain bin where bin: "isApplicationBuild ctx = Inr bin"
    using isApplicationBuild_valid [OF valid] by blast
  let ?pre = "toolchainTokens opts @ [if bin then ''--bin'' else ''-p'', ?n]"
  let ?post = "compileTokens opts @ outDirTokens opts @ displayTokens opts"
  have ret: "snd (parseCargoArgs opts ctx) = Inr (?pre @ featureTokens opts @ ?post)"
    using parseCargoArgs_tokens [OF name bin, of opts] by simp
  have pre: "?pre \<noteq> [] \<and> last ?pre = ?n" by simp
  have all: "\<exists>pre post. snd (parseCargoArgs opts ctx) = Inr (pre @ [''--all-features''] @ post)
              \<and> pre \<noteq> [] \<and> last pre = ?n
              \<and> (?n \<noteq> ''--features''
                  \<and> str_of (target opts) \<noteq> ''--features''
                  \<and> str_of (targetDir opts) \<noteq> ''--features''
                  \<and> str_of (outDir opts) \<noteq> ''--features''
                  \<and> str_of (messageFormat opts) \<noteq> ''--features''
                  \<longrightarrow> ''--features'' \<notin> set (pre @ [''--all-features''] @ post))"
    if sentinel: "features opts = Some ''all''"
  proof -
    have r: "snd (parseCargoArgs opts ctx) = Inr (?pre @ [''--all-features''] @ ?post)"
      using ret featureTokens_all_sentinel [OF sentinel] by simp
    have none: "''--features'' \<notin> set (?pre @ [''--all-features''] @ ?post)"
      if v: "?n \<noteq> ''--features'' \<and> str_of (target opts) \<noteq> ''--features''
             \<and> str_of (targetDir opts) \<noteq> ''--features''
             \<and> str_of (outDir opts) \<noteq> ''--features''
             \<and> str_of (messageFormat opts) \<noteq> ''--features''"
    proof -
      have "''--features'' \<notin> set ?pre"
        using toolchainTokens_not_features [of opts] v by auto
      moreover have "''--features'' \<notin> set ?post"
        using compileTokens_not_features [of opts] outDirTokens_not_features [of opts]
          displayTokens_not_features [of opts] v
        unfolding set_append by blast
      ultimately show ?thesis by simp
    qed
    from r pre none show ?thesis by blast
  qed
  have val: "\<exists>pre post. snd (parseCargoArgs opts ctx) = Inr (pre @ [''--features'', v] @ post)
              \<and> pre \<noteq> [] \<and> last pre = ?n"
    if "features opts = Some v \<and> v \<noteq> [] \<and> v \<noteq> ''all''" for v
  proof -
    have "snd (parseCargoArgs opts ctx) = Inr (?pre @ [''--features'', v] @ ?post)"
      using ret featureTokens_value [of opts v] that by simp
    with pre show ?thesis by blast
  qed
  from all val show ?thesis by blast
qed

text \<open>
  C7 at features \<open>"all"\<close> and at features \<open>"x,y"\<close>.
\<close>

theorem parseCargoArgs_features_witness:
  "truthy_str (ExecutorContext.projectName (example_ctx (Some ''core'') ''test''))
   \<and> (\<exists>pre post. snd (parseCargoArgs (no_options\<lparr>features := Some ''all''\<rparr>)
                         (example_ctx (Some ''core'') ''test''))
          = Inr (pre @ [''--all-features''] @ post)
        \<and> last pre = ''core'' \<and> ''--features'' \<notin> set (pre @ [''--all-features''] @ post))
   \<and> (\<exists>pre post. snd (parseCargoArgs (no_options\<lparr>features := Some ''x,y''\<rparr>)
                         (example_ctx (Some ''core'') ''test''))
          = Inr (pre @ [''--features'', ''x,y''] @ post)
        \<and> last pre = ''core'')"
proof -
  let ?c = "example_ctx (Some ''core'') ''test''"
  have name: "truthy_str (ExecutorContext.projectName ?c)"
    by (simp add: example_ctx_def truthy_str_def)
  have valid: "targetName ?c = Some ''build'' \<longrightarrow>
           workspace_projects ?c (str_of (ExecutorContext.projectName ?c)) \<noteq> None"
    by (simp add: example_ctx_def)
  have n: "str_of (ExecutorContext.projectName ?c) = ''core''"
    by (simp add: example_ctx_def str_of_def)
  have "\<exists>pre post. snd (parseCargoArgs (no_options\<lparr>features := Some ''all''\<rparr>) ?c)
          = Inr (pre @ [''--all-features''] @ post)
        \<and> last pre = ''core'' \<and> ''--features'' \<notin> set (pre @ [''--all-features''] @ post)"
    using parseCargoArgs_features [OF name valid, of "no_options\<lparr>features := Some ''all''\<rparr>"]
    unfolding n by (simp add: no_options_def str_of_def) blast
  moreover have "\<exists>pre post. snd (parseCargoArgs (no_options\<lparr>features := Some ''x,y''\<rparr>) ?c)
          = Inr (pre @ [''--features'', ''x,y''] @ post) \<and> last pre = ''core''"
    using parseCargoArgs_features [OF name valid, of "no_options\<lparr>features := Some ''x,y''\<rparr>"]
    unfolding n by (simp add: no_options_def str_of_def) blast
  ultimately show ?thesis using name by blast
qed

text \<open>
  C7 as it was stated fails: values are copied as they are, so with features
  \<open>"all"\<close> and the target directory \<open>--features\<close> the vector has a
  \<open>--features\<close> token.
\<close>

theorem parseCargoArgs_features_value_token:
  "features (no_options\<lparr>features := Some ''all'', targetDir := Some ''--features''\<rparr>) = Some ''all''
   \<and> snd (parseCargoArgs (no_options\<lparr>features := Some ''all'', targetDir := Some ''--features''\<rparr>)
            (example_ctx (Some ''core'') ''test''))
       = Inr [''-p'', ''core'', ''--all-features'', ''--target-dir'', ''--features'']
   \<and> ''--features'' \<in> set [''-p'', ''core'', ''--all-features'', ''--target-dir'', ''--features'']"
  by (simp add: run_defs)


section \<open>Claims on the process invocation\<close>

text \<open>
  What the listeners do with the first event of the child. A \<open>'close'\<close> event with an
  exit code \<open>c\<close> fulfils the promise if and only if \<open>c\<close> is zero, and a non-zero \<open>c\<close>
  rejects it with the error "Cargo failed with exit code \<open>c\<close>"; an \<open>'error'\<close> event
  rejects it with the spawn error itself, which carries no exit code and differs from
  every outcome of a \<open>'close'\<close> event.
\<close>

lemma runCargo_first_event:
  "promise (runCargo args ctx (CloseEvent (Some c) signal # events)) =
     (if c = 0 then Fulfilled
      else Rejected (Error (''Cargo failed with exit code '' @ string_of_int c)))
   \<and> (promise (runCargo args ctx (CloseEvent (Some c) signal # events)) = Fulfilled) = (c = 0)
   \<and> promise (runCargo args ctx (ErrorEvent (SpawnError label) # events))
       = Rejected (SpawnError label)
   \<and> promise (runCargo args ctx (ErrorEvent (SpawnError label) # events))
       \<noteq> promise (runCargo args' ctx' (CloseEvent code' signal' # events'))"
proof -
  have close: "promise (runCargo args ctx (CloseEvent (Some c) signal # events)) =
     (if c = 0 then Fulfilled
      else Rejected (Error (''Cargo failed with exit code '' @ string_of_int c)))"
    using promise_first_event [of "CloseEvent (Some c) signal" args ctx events]
    by (simp add: on_close_code)
  have err: "promise (runCargo args ctx (ErrorEvent (SpawnError label) # events))
       = Rejected (SpawnError label)"
    by (simp add: promise_first_event)
  have other: "promise (runCargo args' ctx' (CloseEvent code' signal' # events')) = on_close code'"
    using promise_first_event [of "CloseEvent code' signal'" args' ctx' events']
    by (simp add: on_close_def split: option.splits)
  have "on_close code' \<noteq> Rejected (SpawnError label)"
    by (simp add: on_close_def split: option.splits)
  with close err other show ?thesis by simp
qed

text \<open>
  A \<open>'close'\<close> event without an exit code, the event of a process ended by a signal,
  fulfils the promise, whatever the signal and whatever arrives later.
\<close>

lemma runCargo_close_without_code:
  "promise (runCargo args ctx (CloseEvent None signal # events)) = Fulfilled"
  using promise_first_event [of "CloseEvent None signal" args ctx events]
  by (simp add: on_close_def)

text \<open>
  The process is spawned with \<open>shell: true\<close>, so a cargo binary that is missing or not
  executable is reported by the shell, as a \<open>'close'\<close> event with the exit code 127 or
  126 and no \<open>'error'\<close> event: the rejection then carries an exit code.
\<close>

lemma runCargo_missing_binary_under_shell:
  "spawned (runCargo [''build'', ''-p'', ''core''] (example_ctx (Some ''core'') ''build'')
      [CloseEvent (Some 127) None])
     = \<lparr> command = ''cargo'', spawn_args = [''build'', ''-p'', ''core''], cwd = ''/repo'',
         shell = True, stdio = ''inherit'' \<rparr>
   \<and> promise (runCargo [''build'', ''-p'', ''core''] (example_ctx (Some ''core'') ''build'')
      [CloseEvent (Some 127) None]) = Rejected (Error ''Cargo failed with exit code 127'')"
proof -
  have s: "string_of_int 127 = ''127''" by code_simp
  show ?thesis
    using runCargo_first_event [where args = "[''build'', ''-p'', ''core'']"
        and ctx = "example_ctx (Some ''core'') ''build''" and c = 127 and signal = None
        and events = "[]"]
    by (simp add: s runCargo_def example_ctx_def)
qed

text \<open>
  C2. The claim asks that termination by a signal yields a failure. The code does not do
  so: the \<open>'close'\<close> listener tests \<open>if (code)\<close>, and the exit code of a process ended
  by a signal is \<open>null\<close>, so at the single event \<open>close(null, "SIGKILL")\<close> the promise
  is fulfilled, although the process did not exit with code zero and the same listener
  rejects every non-zero exit code.
\<close>

theorem runCargo_signal_resolves:
  "promise (runCargo [''build'', ''-p'', ''core''] (example_ctx (Some ''core'') ''build'')
      [CloseEvent None (Some ''SIGKILL'')]) = Fulfilled"
  by (simp add: runCargo_def on_close_def)


section \<open>Claims on the subcommand resolver\<close>

text \<open>
  C8. The resolver maps the action label \<open>build\<close> to \<open>["build"]\<close>, \<open>test\<close> to
  \<open>["test"]\<close>, \<open>lint\<close> to \<open>["clippy"]\<close>, \<open>run\<close> to \<open>["run"]\<close> and
  \<open>nextest\<close> to \<open>["nextest", "run"]\<close>; every other label (a text without \<open>':'\<close>)
  gives the empty sequence. The result is a plain list: no label is an error.
\<close>

theorem getCargoCommandFromExecutor_table:
  "getCargoCommandFromExecutor ''build'' = [''build'']
   \<and> getCargoCommandFromExecutor ''test'' = [''test'']
   \<and> getCargoCommandFromExecutor ''lint'' = [''clippy'']
   \<and> getCargoCommandFromExecutor ''run'' = [''run'']
   \<and> getCargoCommandFromExecutor ''nextest'' = [''nextest'', ''run'']
   \<and> (\<forall>a. CHR '':'' \<notin> set a
            \<and> a \<noteq> ''build'' \<and> a \<noteq> ''test'' \<and> a \<noteq> ''lint'' \<and> a \<noteq> ''run'' \<and> a \<noteq> ''nextest''
          \<longrightarrow> getCargoCommandFromExecutor a = [])"
proof -
  have bare: "getCargoCommandFromExecutor a =
     (if a = ''build'' then [''build'']
      else if a = ''test'' then [''test'']
      else if a = ''lint'' then [''clippy'']
      else if a = ''run'' then [''run'']
      else if a = ''nextest'' then [''nextest'', ''run'']
      else [])" if "CHR '':'' \<notin> set a" for a
    using that by (simp add: getCargoCommandFromExecutor_def at_last_def str_split_no_sep)
  have "getCargoCommandFromExecutor ''build'' = [''build'']" by (subst bare) simp_all
  moreover have "getCargoCommandFromExecutor ''test'' = [''test'']" by (subst bare) simp_all
  moreover have "getCargoCommandFromExecutor ''lint'' = [''clippy'']" by (subst bare) simp_all
  moreover have "getCargoCommandFromExecutor ''run'' = [''run'']" by (subst bare) simp_all
  moreover have "getCargoCommandFromExecutor ''nextest'' = [''nextest'', ''run'']"
    by (subst bare) simp_all
  moreover have "\<forall>a. CHR '':'' \<notin> set a
            \<and> a \<noteq> ''build'' \<and> a \<noteq> ''test'' \<and> a \<noteq> ''lint'' \<and> a \<noteq> ''run'' \<and> a \<noteq> ''nextest''
          \<longrightarrow> getCargoCommandFromExecutor a = []"
    by (simp add: bare)
  ultimately show ?thesis by blast
qed

text \<open>
  C8 at the label \<open>deploy\<close>.
\<close>

theorem getCargoCommandFromExecutor_table_witness:
  "CHR '':'' \<notin> set ''deploy'' \<and> getCargoCommandFromExecutor ''deploy'' = []"
  using getCargoCommandFromExecutor_table by simp

text \<open>
  C9. The resolver depends only on the text after the last \<open>':'\<close> of the executor
  identifier: for every prefix \<open>p\<close> and label \<open>a\<close>, the identifier \<open>p + ":" + a\<close>
  resolves exactly as \<open>a\<close> does; in particular \<open>@scope/plugin:lint\<close> resolves as
  the bare label \<open>lint\<close>, to \<open>["clippy"]\<close>.
\<close>

theorem getCargoCommandFromExecutor_last_segment:
  "getCargoCommandFromExecutor (p @ '':'' @ a) = getCargoCommandFromExecutor a
   \<and> getCargoCommandFromExecutor ''@scope/plugin:lint'' = getCargoCommandFromExecutor ''lint''
   \<and> getCargoCommandFromExecutor ''lint'' = [''clippy'']"
proof -
  have gen: "\<And>q b. getCargoCommandFromExecutor (q @ '':'' @ b) = getCargoCommandFromExecutor b"
    by (simp add: getCargoCommandFromExecutor_def at_last_str_split_append)
  have "getCargoCommandFromExecutor (''@scope/plugin'' @ '':'' @ ''lint'')
        = getCargoCommandFromExecutor ''lint''"
    by (rule gen)
  moreover have "getCargoCommandFromExecutor ''lint'' = [''clippy'']"
    by (simp add: getCargoCommandFromExecutor_def at_last_def)
  ultimately show ?thesis using gen [of p a] by simp
qed


section \<open>Claims on the manifest member list\<close>

text \<open>
  C10. If the parsed manifest has a workspace table whose members list is absent,
  \<open>updateWorkspaceMembers\<close> raises no error and appends nothing: it writes back the
  serialization of the parsed document as it is, so the stored content is that of the
  manifest up to serialization.
\<close>

theorem updateWorkspaceMembers_no_members:
  assumes parsed: "parseToml (host CARGO_TOML) = Inr doc"
    and ws: "get_prop doc ''workspace'' = Some (TTable ws)"
    and absent: "map_of ws ''members'' = None"
  shows "updateWorkspaceMembers parseToml stringifyToml CARGO_TOML host opts
         = Inr (host(CARGO_TOML \<mapsto> stringifyToml doc))"
  using parsed ws absent by (simp add: updateWorkspaceMembers_def)

text \<open>
  C10 at a manifest whose workspace table has only a resolver entry.
\<close>

theorem updateWorkspaceMembers_no_members_witness:
  "get_prop example_manifest ''workspace'' = Some (TTable [(''resolver'', TString ''2'')])
   \<and> map_of [(''resolver'', TString ''2'')] ''members'' = None
   \<and> updateWorkspaceMembers (\<lambda>text. Inr example_manifest) (\<lambda>doc. ''[workspace]'')
        ''Cargo.toml'' [''Cargo.toml'' \<mapsto> ''[workspace] ''] example_generator_options
      = Inr [''Cargo.toml'' \<mapsto> ''[workspace]'']"
proof -
  have ws: "get_prop example_manifest ''workspace'' = Some (TTable [(''resolver'', TString ''2'')])"
    by (simp add: example_manifest_def)
  have absent: "map_of [(''resolver'', TString ''2'')] ''members'' = None" by simp
  have parsed: "(\<lambda>text. Inr example_manifest) ([''Cargo.toml'' \<mapsto> ''[workspace] ''] ''Cargo.toml'')
        = (Inr example_manifest :: js_error + toml)" by simp
  from updateWorkspaceMembers_no_members [OF parsed ws absent,
      where stringifyToml = "\<lambda>doc. ''[workspace]''" and opts = example_generator_options]
    ws absent
  show ?thesis by simp
qed

end
